theory Spec2Isabelle
  imports Main "HOL-Library.AList"
begin

section \<open>Python values used by the S3I client\<close>

text \<open>
  The values that travel through the client are JSON scalars: the fields of the identity
  provider's token response, the values of a form payload and the values of a message.
  Floating-point numbers and nested arrays or objects are not part of this model.
  A Python \<^verbatim>\<open>str\<close> is a \<^typ>\<open>string\<close>, one \<^typ>\<open>char\<close> per code point (every
  literal of the source stays below code point 256).  A \<^verbatim>\<open>dict\<close> is an association
  list in insertion order with distinct keys.
\<close>

datatype json = JNull | JBool bool | JInt int | JStr string

type_synonym dict = "(string \<times> json) list"

text \<open>\<^verbatim>\<open>d.get(k)\<close>: the value, or \<^verbatim>\<open>None\<close> for a missing key.\<close>

definition dict_get :: "dict \<Rightarrow> string \<Rightarrow> json" where
  "dict_get d k = (case map_of d k of None \<Rightarrow> JNull | Some v \<Rightarrow> v)"

text \<open>\<^verbatim>\<open>d1 | d2\<close>: the keys of \<open>d1\<close> in their order, values overwritten from \<open>d2\<close>,
  then the new keys of \<open>d2\<close>.\<close>

definition dict_or :: "('k \<times> 'v) list \<Rightarrow> ('k \<times> 'v) list \<Rightarrow> ('k \<times> 'v) list" where
  "dict_or d1 d2 = foldl (\<lambda>d (k, v). AList.update k v d) d1 d2"

text \<open>Truthiness of an \<^verbatim>\<open>Optional[str]\<close>: \<^verbatim>\<open>None\<close> and \<^verbatim>\<open>""\<close> are falsy.\<close>

fun truthy :: "string option \<Rightarrow> bool" where
  "truthy None = False"
| "truthy (Some s) = (s \<noteq> [])"

fun opt_json :: "string option \<Rightarrow> json" where
  "opt_json None = JNull"
| "opt_json (Some s) = JStr s"

text \<open>\<^verbatim>\<open>str(v)\<close>, as an f-string formats a value.\<close>

fun show_nat :: "nat \<Rightarrow> string" where
  "show_nat n = (if n < 10 then [char_of (48 + n)] else show_nat (n div 10) @ [char_of (48 + n mod 10)])"

definition show_int :: "int \<Rightarrow> string" where
  "show_int i = (if i < 0 then CHR ''-'' # show_nat (nat (- i)) else show_nat (nat i))"

fun py_str :: "json \<Rightarrow> string" where
  "py_str JNull = ''None''"
| "py_str (JBool b) = (if b then ''True'' else ''False'')"
| "py_str (JInt i) = show_int i"
| "py_str (JStr s) = s"

section \<open>exceptions.py\<close>

text \<open>
  \<^verbatim>\<open>S3IException\<close> and its two subclasses share one constructor: the class, the message and
  the four optional diagnostic attributes \<^verbatim>\<open>headers\<close>, \<^verbatim>\<open>body\<close>, \<^verbatim>\<open>status_code\<close> and
  \<^verbatim>\<open>response\<close>.  The other exceptions are the ones Python and the libraries raise on the
  paths modelled here.  Every exception of the model is an instance of \<^verbatim>\<open>Exception\<close>.
\<close>

datatype s3i_class = S3IException | AuthenticationException | InvalidCredentialsException

datatype py_class =
  KeyError | TypeError | OverflowError | AttributeError | JSONDecodeError | ValidationError | HTTPError

datatype exn =
    S3IError (exn_class: s3i_class) (exn_message: string)
      (exn_headers: "(string \<times> string) list option") (exn_body: "dict option")
      (exn_status_code: "int option") (exn_response: "string option")
  | NotImplementedError string
  | ExceptionGroup string (exceptions: "exn list")
  | PyError py_class

section \<open>The world outside: clock and HTTP transport\<close>

text \<open>
  A \<^verbatim>\<open>datetime\<close> is the number of microseconds since 0001-01-01T00:00:00.  Every call of
  \<^verbatim>\<open>datetime.now()\<close> reads the next value of \<open>clock\<close>.  Every request sent through an
  \<^verbatim>\<open>httpx.Client\<close> is logged with the client that sent it and answered by \<open>transport\<close>,
  which sees how many requests came before; the answer is a response or an exception
  raised by the HTTP library.  Clients are numbered in the order of their creation.
\<close>

type_synonym datetime = int

datatype http_method = GET | POST

datatype content = NoContent | FormData dict | JsonBody dict

record http_request =
  http_method :: http_method
  url :: string
  request_headers :: "(string \<times> string) list"
  content :: content

text \<open>What \<^verbatim>\<open>response.json()\<close> gives: a decoding error, an object, or another JSON value.\<close>

datatype json_doc = NotJson | JsonObject dict | JsonOther

record http_response =
  status_code :: int
  headers :: "(string \<times> string) list"
  "text" :: string
  json :: json_doc

record world =
  clock :: "nat \<Rightarrow> datetime"
  ticks :: nat
  transport :: "nat \<Rightarrow> http_request \<Rightarrow> exn + http_response"
  requests :: "(nat \<times> http_request) list"
  clients :: nat
  closed :: "nat list"

definition now :: "world \<Rightarrow> datetime \<times> world" where
  "now w = (clock w (ticks w), w\<lparr>ticks := Suc (ticks w)\<rparr>)"

text \<open>\<^verbatim>\<open>timedelta(seconds=v)\<close> in microseconds: a number of seconds (a \<^verbatim>\<open>bool\<close> is an
  \<^verbatim>\<open>int\<close>) whose days stay within 999999999.\<close>

definition timedelta_int :: "int \<Rightarrow> exn + int" where
  "timedelta_int n =
     (if \<bar>n div 86400\<bar> > 999999999 then Inl (PyError OverflowError) else Inr (n * 1000000))"

fun timedelta :: "json \<Rightarrow> exn + int" where
  "timedelta (JInt n) = timedelta_int n"
| "timedelta (JBool b) = timedelta_int (if b then 1 else 0)"
| "timedelta _ = Inl (PyError TypeError)"

text \<open>\<^verbatim>\<open>datetime + timedelta\<close>: the result lies between 0001-01-01 and 9999-12-31.\<close>

definition datetime_max :: int where
  "datetime_max = 3652059 * 86400 * 1000000"

definition datetime_add :: "datetime \<Rightarrow> int \<Rightarrow> exn + datetime" where
  "datetime_add t d =
     (if 0 \<le> t + d \<and> t + d < datetime_max then Inr (t + d) else Inl (PyError OverflowError))"

text \<open>\<^verbatim>\<open>httpx.Client()\<close> and \<^verbatim>\<open>client.close()\<close>.\<close>

definition httpx_Client :: "world \<Rightarrow> nat \<times> world" where
  "httpx_Client w = (clients w, w\<lparr>clients := Suc (clients w)\<rparr>)"

definition close :: "nat \<Rightarrow> world \<Rightarrow> world" where
  "close c w = w\<lparr>closed := List.insert c (closed w)\<rparr>"

definition send_request :: "nat \<Rightarrow> http_request \<Rightarrow> world \<Rightarrow> (exn + http_response) \<times> world" where
  "send_request c req w =
     (transport w (length (requests w)) req, w\<lparr>requests := requests w @ [(c, req)]\<rparr>)"

text \<open>\<^verbatim>\<open>client.post(url, headers=headers, data=payload)\<close>,
  \<^verbatim>\<open>client.post(url, headers=headers, json=message)\<close> and
  \<^verbatim>\<open>client.get(url, headers=headers)\<close>.\<close>

definition post :: "nat \<Rightarrow> string \<Rightarrow> (string \<times> string) list \<Rightarrow> content \<Rightarrow> world
    \<Rightarrow> (exn + http_response) \<times> world" where
  "post c u hs body w =
     send_request c \<lparr>http_method = POST, url = u, request_headers = hs, content = body\<rparr> w"

definition get :: "nat \<Rightarrow> string \<Rightarrow> (string \<times> string) list \<Rightarrow> world
    \<Rightarrow> (exn + http_response) \<times> world" where
  "get c u hs w =
     send_request c \<lparr>http_method = GET, url = u, request_headers = hs, content = NoContent\<rparr> w"

section \<open>auth.py\<close>

definition DEFAULT_IDP_URL :: string where
  "DEFAULT_IDP_URL = ''https://idp.s3i.vswf.dev/auth/realms/KWH/protocol/openid-connect/token''"

subsection \<open>Token\<close>

record Token =
  auth_scheme :: json
  token_content :: json
  expires_at :: datetime
  refresh_token :: json
  refresh_expires_at :: datetime

text \<open>The property \<^verbatim>\<open>expired\<close>: \<^verbatim>\<open>return datetime.now() < self.expires_at\<close>.\<close>

definition expired :: "Token \<Rightarrow> world \<Rightarrow> bool \<times> world" where
  "expired self w = (case now w of (t, w') \<Rightarrow> (t < expires_at self, w'))"

text \<open>The property \<^verbatim>\<open>refresh_expired\<close>:
  \<^verbatim>\<open>return datetime.now() < self.refresh_expires_at\<close>.\<close>

definition refresh_expired :: "Token \<Rightarrow> world \<Rightarrow> bool \<times> world" where
  "refresh_expired self w = (case now w of (t, w') \<Rightarrow> (t < refresh_expires_at self, w'))"

definition full_token :: "Token \<Rightarrow> string" where
  "full_token self = py_str (auth_scheme self) @ '' '' @ py_str (token_content self)"

definition header :: "Token \<Rightarrow> (string \<times> string) list" where
  "header self = [(''Authorization'', full_token self)]"

subsection \<open>The authenticators\<close>

text \<open>
  The three classes differ in their credentials and in \<^verbatim>\<open>_build_auth_payload\<close> only.
  \<open>client\<close> is the number of the \<^verbatim>\<open>httpx.Client\<close> the authenticator holds.
\<close>

datatype authenticator_class =
    BaseAuthenticator
  | ClientAuthenticator string string
  | PasswordAuthenticator string string "string option" "string option"

record authenticator =
  authenticator_class :: authenticator_class
  token :: "Token option"
  idp_url :: string
  client :: nat
  external_client :: bool

text \<open>\<^verbatim>\<open>__init__\<close>: \<^verbatim>\<open>self.client = client or httpx.Client()\<close>, then
  \<^verbatim>\<open>self.external_client = client is None\<close>.\<close>

definition BaseAuthenticator_init :: "authenticator_class \<Rightarrow> nat option \<Rightarrow> string \<Rightarrow> world
    \<Rightarrow> authenticator \<times> world" where
  "BaseAuthenticator_init cls client_arg idp_url_arg w =
     (case (case client_arg of Some c \<Rightarrow> (c, w) | None \<Rightarrow> httpx_Client w) of
        (c, w') \<Rightarrow>
          (\<lparr>authenticator_class = cls, token = None, idp_url = idp_url_arg, client = c,
            external_client = (client_arg = None)\<rparr>, w'))"

text \<open>\<^verbatim>\<open>__del__\<close>: \<^verbatim>\<open>if not self.external_client: self.client.close()\<close>.\<close>

definition BaseAuthenticator_del :: "authenticator \<Rightarrow> world \<Rightarrow> world" where
  "BaseAuthenticator_del self w = (if \<not> external_client self then close (client self) w else w)"

text \<open>\<^verbatim>\<open>_build_auth_payload\<close> of the three classes.\<close>

fun build_auth_payload :: "authenticator_class \<Rightarrow> exn + dict" where
  "build_auth_payload BaseAuthenticator =
     Inl (NotImplementedError ''This method should be implemented by subclasses.'')"
| "build_auth_payload (ClientAuthenticator ident secret) =
     Inr [(''grant_type'', JStr ''client_credentials''),
          (''client_id'', JStr ident),
          (''client_secret'', JStr secret)]"
| "build_auth_payload (PasswordAuthenticator ident secret username password) =
     Inr (if truthy username \<and> truthy password
          then dict_or [(''grant_type'', JStr ''password''),
                        (''client_id'', JStr ident),
                        (''client_secret'', JStr secret)]
                       [(''username'', opt_json username), (''password'', opt_json password)]
          else [])"

definition invalid_client_text :: string where
  \<open>invalid_client_text =
     ''{"error":"invalid_client","error_description":"Invalid client credentials"}''\<close>

definition could_not_obtain :: string where
  "could_not_obtain = ''Could not obtain token from S'' @ [CHR 0xB3] @ ''I Identity Provider.''"

definition could_not_refresh :: string where
  "could_not_refresh = ''Could not refresh token from S'' @ [CHR 0xB3] @ ''I Identity Provider.''"

definition form_headers :: "(string \<times> string) list" where
  "form_headers = [(''Content-Type'', ''application/x-www-form-urlencoded'')]"

text \<open>
  \<^verbatim>\<open>datetime.now() + timedelta(seconds=resp_json[key])\<close>: the clock is read first, then
  the subscript may raise \<^verbatim>\<open>KeyError\<close>, then the two library calls may raise.
\<close>

definition expiry_after :: "dict \<Rightarrow> string \<Rightarrow> world \<Rightarrow> (exn + datetime) \<times> world" where
  "expiry_after resp_json key w =
     (case now w of (t, w') \<Rightarrow>
        (case map_of resp_json key of
           None \<Rightarrow> (Inl (PyError KeyError), w')
         | Some v \<Rightarrow>
             (case timedelta v of
                Inl e \<Rightarrow> (Inl e, w')
              | Inr d \<Rightarrow> (datetime_add t d, w'))))"

text \<open>The end of \<^verbatim>\<open>_get_token_from_idp\<close>: \<^verbatim>\<open>resp_json = response.json()\<close> and the
  construction of the \<^verbatim>\<open>Token\<close>, its arguments evaluated from left to right.\<close>

definition token_of_response :: "http_response \<Rightarrow> world \<Rightarrow> (exn + Token) \<times> world" where
  "token_of_response response w =
     (case json response of
        NotJson \<Rightarrow> (Inl (PyError JSONDecodeError), w)
      | JsonOther \<Rightarrow> (Inl (PyError AttributeError), w)
      | JsonObject resp_json \<Rightarrow>
          (case expiry_after resp_json ''expires_in'' w of
             (Inl e, w1) \<Rightarrow> (Inl e, w1)
           | (Inr t1, w1) \<Rightarrow>
               (case expiry_after resp_json ''refresh_expires_in'' w1 of
                  (Inl e, w2) \<Rightarrow> (Inl e, w2)
                | (Inr t2, w2) \<Rightarrow>
                    (Inr \<lparr>auth_scheme = dict_get resp_json ''token_type'',
                          token_content = dict_get resp_json ''access_token'',
                          expires_at = t1,
                          refresh_token = dict_get resp_json ''refresh_token'',
                          refresh_expires_at = t2\<rparr>, w2))))"

definition get_token_from_idp :: "authenticator \<Rightarrow> world \<Rightarrow> (exn + Token) \<times> world" where
  "get_token_from_idp self w =
     (case build_auth_payload (authenticator_class self) of
        Inl e \<Rightarrow> (Inl e, w)
      | Inr payload \<Rightarrow>
          (case post (client self) (idp_url self) form_headers (FormData payload) w of
             (Inl e, w1) \<Rightarrow> (Inl e, w1)
           | (Inr response, w1) \<Rightarrow>
               if status_code response \<ge> 400 then
                 (if text response = invalid_client_text
                  then (Inl (S3IError InvalidCredentialsException ''Invalid client credentials.''
                               None None (Some (status_code response)) (Some (text response))), w1)
                  else (Inl (S3IError AuthenticationException could_not_obtain
                               None None (Some (status_code response)) (Some (text response))), w1))
               else token_of_response response w1))"

text \<open>
  \<^verbatim>\<open>_refresh_token\<close>.  The method has no \<^verbatim>\<open>return\<close> statement: when the response is
  below 400 it falls off its end and gives \<^verbatim>\<open>None\<close>.
\<close>

definition BaseAuthenticator_refresh_token :: "authenticator \<Rightarrow> world
    \<Rightarrow> (exn + Token option) \<times> world" where
  "BaseAuthenticator_refresh_token self w =
     (case token self of
        None \<Rightarrow> (Inl (PyError AttributeError), w)
      | Some tok \<Rightarrow>
          (case post (client self) (idp_url self) form_headers
                  (FormData [(''grant_type'', JStr ''refresh_token''),
                             (''refresh_token'', refresh_token tok)]) w of
             (Inl e, w1) \<Rightarrow> (Inl e, w1)
           | (Inr response, w1) \<Rightarrow>
               if status_code response \<ge> 400 then
                 (Inl (S3IError AuthenticationException could_not_refresh
                         None None (Some (status_code response)) (Some (text response))), w1)
               else (Inr None, w1)))"

text \<open>
  \<^verbatim>\<open>obtain_token\<close>.  The two conditions are \<^verbatim>\<open>self.__token and not self.__token.expired\<close>
  and \<^verbatim>\<open>self.__token and not self.__token.refresh_expired\<close>: the clock is read only when
  a token is cached, and the second one only when the first is false.
\<close>

definition token_and_not :: "Token option \<Rightarrow> (Token \<Rightarrow> world \<Rightarrow> bool \<times> world) \<Rightarrow> world
    \<Rightarrow> bool \<times> world" where
  "token_and_not cached prop w =
     (case cached of
        None \<Rightarrow> (False, w)
      | Some tok \<Rightarrow> (case prop tok w of (b, w') \<Rightarrow> (\<not> b, w')))"

definition return_token :: "authenticator \<Rightarrow> world \<Rightarrow> (exn + Token) \<times> authenticator \<times> world" where
  "return_token self w =
     (case token self of
        None \<Rightarrow> (Inl (S3IError AuthenticationException could_not_obtain None None None None), self, w)
      | Some tok \<Rightarrow> (Inr tok, self, w))"

definition obtain_token :: "authenticator \<Rightarrow> world \<Rightarrow> (exn + Token) \<times> authenticator \<times> world" where
  "obtain_token self w =
     (case token_and_not (token self) expired w of
        (True, w1) \<Rightarrow> return_token self w1
      | (False, w1) \<Rightarrow>
          (case token_and_not (token self) refresh_expired w1 of
             (True, w2) \<Rightarrow>
               (case BaseAuthenticator_refresh_token self w2 of
                  (Inl e, w3) \<Rightarrow> (Inl e, self, w3)
                | (Inr tok, w3) \<Rightarrow> return_token (self\<lparr>token := tok\<rparr>) w3)
           | (False, w2) \<Rightarrow>
               (case get_token_from_idp self w2 of
                  (Inl e, w3) \<Rightarrow> (Inl e, self, w3)
                | (Inr tok, w3) \<Rightarrow> return_token (self\<lparr>token := Some tok\<rparr>) w3)))"

section \<open>broker.py\<close>

definition DEFAULT_BROKER_URL :: string where
  "DEFAULT_BROKER_URL = ''https://broker.s3i.vswf.dev''"

text \<open>A \<^verbatim>\<open>Thing\<close> after \<^verbatim>\<open>__post_init__\<close>: a queue that was not given is derived from
  the id.\<close>

record Thing =
  thing_id :: string
  thing_secret :: string
  thing_message_queue :: string
  thing_event_queue :: string

definition Thing :: "string \<Rightarrow> string \<Rightarrow> string option \<Rightarrow> string option \<Rightarrow> Thing" where
  "Thing ident secret mq eq =
     \<lparr>thing_id = ident, thing_secret = secret,
      thing_message_queue = (case mq of None \<Rightarrow> ''s3ibs://'' @ ident | Some q \<Rightarrow> q),
      thing_event_queue = (case eq of None \<Rightarrow> ''s3ib://'' @ ident @ ''/event'' | Some q \<Rightarrow> q)\<rparr>"

record Broker =
  broker_url :: string
  broker_client :: nat
  broker_external_client :: bool
  auth :: authenticator
  message_queue :: string
  event_queue :: string

text \<open>\<^verbatim>\<open>Broker.__init__\<close>: the authenticator is built on the broker's own
  \<^verbatim>\<open>self.client\<close>.\<close>

definition Broker_init :: "Thing \<Rightarrow> nat option \<Rightarrow> string \<Rightarrow> world \<Rightarrow> Broker \<times> world" where
  "Broker_init self_thing client_arg broker_url_arg w =
     (case (case client_arg of Some c \<Rightarrow> (c, w) | None \<Rightarrow> httpx_Client w) of
        (c, w1) \<Rightarrow>
          (case BaseAuthenticator_init
                  (ClientAuthenticator (thing_id self_thing) (thing_secret self_thing))
                  (Some c) DEFAULT_IDP_URL w1 of
             (a, w2) \<Rightarrow>
               (\<lparr>broker_url = broker_url_arg, broker_client = c,
                 broker_external_client = (client_arg = None), auth = a,
                 message_queue = thing_message_queue self_thing,
                 event_queue = thing_event_queue self_thing\<rparr>, w2)))"

text \<open>\<^verbatim>\<open>Broker.__del__\<close>: \<^verbatim>\<open>if not self.external_client: self.client.close()\<close>.\<close>

definition Broker_del :: "Broker \<Rightarrow> world \<Rightarrow> world" where
  "Broker_del self w =
     (if \<not> broker_external_client self then close (broker_client self) w else w)"

definition send :: "Broker \<Rightarrow> string \<Rightarrow> dict \<Rightarrow> world \<Rightarrow> (exn + int \<times> string) \<times> Broker \<times> world" where
  "send self endpoint message w =
     (case obtain_token (auth self) w of
        (Inl e, a, w1) \<Rightarrow> (Inl e, self\<lparr>auth := a\<rparr>, w1)
      | (Inr tok, a, w1) \<Rightarrow>
          (case post (broker_client self) (broker_url self @ ''/'' @ endpoint)
                  (dict_or [(''Content-Type'', ''application/json'')] (header tok))
                  (JsonBody message) w1 of
             (Inl e, w2) \<Rightarrow> (Inl e, self\<lparr>auth := a\<rparr>, w2)
           | (Inr response, w2) \<Rightarrow>
               if status_code response \<noteq> 201 then
                 (Inl (S3IError S3IException (''Failed to send message to '' @ endpoint @ ''.'')
                         (Some (headers response)) (Some message)
                         (Some (status_code response)) (Some (text response))),
                  self\<lparr>auth := a\<rparr>, w2)
               else (Inr (status_code response, text response), self\<lparr>auth := a\<rparr>, w2)))"

definition receive :: "Broker \<Rightarrow> bool \<Rightarrow> bool \<Rightarrow> world
    \<Rightarrow> (exn + (int \<times> string) option) \<times> Broker \<times> world" where
  "receive self event all w =
     (let endpoint = (if event then event_queue self else message_queue self) in
      case obtain_token (auth self) w of
        (Inl e, a, w1) \<Rightarrow> (Inl e, self\<lparr>auth := a\<rparr>, w1)
      | (Inr tok, a, w1) \<Rightarrow>
          (case get (broker_client self)
                  (broker_url self @ ''/'' @ endpoint @ (if all then ''/all'' else []))
                  (header tok) w1 of
             (Inl e, w2) \<Rightarrow> (Inl e, self\<lparr>auth := a\<rparr>, w2)
           | (Inr response, w2) \<Rightarrow>
               if status_code response \<noteq> 200 then
                 (Inl (S3IError S3IException (''Failed to get message from '' @ endpoint @ ''.'')
                         (Some (headers response)) None
                         (Some (status_code response)) (Some (text response))),
                  self\<lparr>auth := a\<rparr>, w2)
               else if text response = [] then (Inr None, self\<lparr>auth := a\<rparr>, w2)
               else (Inr (Some (status_code response, text response)), self\<lparr>auth := a\<rparr>, w2)))"

section \<open>message_models.py, camera/models.py and fetch_messages.py\<close>

datatype S3IMessage =
    GetValueRequestBody (sender: string) (message_identifier: string) (receivers: "string list")
      (replyToEndpoint: string) (attributePath: string)
  | GetValueReplyBody (sender: string) (message_identifier: string) (receivers: "string list")
      (replyingToMessage: string) (message_value: dict)

fun messageType :: "S3IMessage \<Rightarrow> string" where
  "messageType (GetValueRequestBody _ _ _ _ _) = ''getValueRequest''"
| "messageType (GetValueReplyBody _ _ _ _ _) = ''getValueReply''"

record ImageValue =
  image_path :: string
  takenAt :: int
  image :: string

text \<open>
  The two validations are done by the pydantic library; the model takes them as
  parameters: \<^verbatim>\<open>S3IMessage.model_validate_json\<close> and \<^verbatim>\<open>ImageValue.model_validate\<close>, each
  giving the validated object or the exception it raises.
\<close>

record validators =
  S3IMessage_model_validate_json :: "string \<Rightarrow> exn + S3IMessage"
  ImageValue_model_validate :: "dict \<Rightarrow> exn + ImageValue"

text \<open>\<^verbatim>\<open>is_image_message\<close>: the \<^verbatim>\<open>and\<close> reads \<^verbatim>\<open>value\<close> only when the message is a
  reply.\<close>

definition is_image_message :: "S3IMessage \<Rightarrow> bool" where
  "is_image_message message =
     (messageType message = ''getValueReply''
      \<and> dict_get (message_value message) ''type'' = JStr ''b64 jpeg'')"

definition handle_single_message :: "validators \<Rightarrow> string \<Rightarrow> exn + unit" where
  "handle_single_message V response_text =
     (case S3IMessage_model_validate_json V response_text of
        Inl e \<Rightarrow> Inl e
      | Inr message \<Rightarrow>
          if is_image_message message then
            (case ImageValue_model_validate V (message_value message) of
               Inl e \<Rightarrow> Inl e
             | Inr _ \<Rightarrow> Inr ())
          else Inr ())"

text \<open>
  \<^verbatim>\<open>fetch_s3i_messages\<close>.  The loop runs as long as the broker hands out messages, so it
  is a partial function: \<open>None\<close> stands for a run that never ends.  \<open>excs\<close> is the list
  \<^verbatim>\<open>exceptions\<close>.  The call of \<^verbatim>\<open>broker.receive()\<close> stands in the loop condition, outside
  the \<^verbatim>\<open>try\<close>; what \<^verbatim>\<open>handle_single_message\<close> raises is caught by
  \<^verbatim>\<open>except Exception\<close> and appended.
\<close>

partial_function (option) fetch_loop :: "validators \<Rightarrow> exn list \<Rightarrow> Broker \<Rightarrow> world
    \<Rightarrow> ((exn + unit) \<times> Broker \<times> world) option" where
  "fetch_loop V excs broker w =
     (case receive broker False False w of
        (Inl e, broker', w') \<Rightarrow> Some (Inl e, broker', w')
      | (Inr None, broker', w') \<Rightarrow>
          Some (if excs \<noteq> []
                then Inl (ExceptionGroup ''Exceptions occurred while handling messages.'' excs)
                else Inr (), broker', w')
      | (Inr (Some (_, response_text)), broker', w') \<Rightarrow>
          (case handle_single_message V response_text of
             Inl e \<Rightarrow> fetch_loop V (excs @ [e]) broker' w'
           | Inr _ \<Rightarrow> fetch_loop V excs broker' w'))"

definition fetch_s3i_messages :: "validators \<Rightarrow> Broker \<Rightarrow> world
    \<Rightarrow> ((exn + unit) \<times> Broker \<times> world) option" where
  "fetch_s3i_messages V broker w = fetch_loop V [] broker w"

section \<open>Notions used to state the properties\<close>

text \<open>The first receive calls of a run hand out the messages \<open>ms\<close> in this order, one
  each, and leave the broker and the world as given.\<close>

fun receives :: "Broker \<Rightarrow> world \<Rightarrow> (int \<times> string) list \<Rightarrow> (Broker \<times> world) option" where
  "receives broker w [] = Some (broker, w)"
| "receives broker w (m # ms) =
     (case receive broker False False w of
        (Inr (Some m'), broker', w') \<Rightarrow> if m' = m then receives broker' w' ms else None
      | _ \<Rightarrow> None)"

text \<open>The exceptions that handling the messages \<open>ms\<close> raises, in the order of the messages.\<close>

fun failures :: "validators \<Rightarrow> (int \<times> string) list \<Rightarrow> exn list" where
  "failures V [] = []"
| "failures V (m # ms) =
     (case handle_single_message V (snd m) of
        Inl e \<Rightarrow> e # failures V ms
      | Inr _ \<Rightarrow> failures V ms)"

text \<open>The number of GET requests sent so far, that is of polls of a queue.\<close>

definition polls :: "world \<Rightarrow> nat" where
  "polls w = length (filter (\<lambda>(c, req). http_method req = GET) (requests w))"

subsection \<open>Example inputs\<close>

text \<open>A world whose clock stands at \<open>t\<close>, with client 0 created by the caller and nothing
  sent yet.\<close>

definition world_at :: "datetime \<Rightarrow> (nat \<Rightarrow> http_request \<Rightarrow> exn + http_response) \<Rightarrow> world" where
  "world_at t tr =
     \<lparr>clock = (\<lambda>_. t), ticks = 0, transport = tr, requests = [], clients = 1, closed = []\<rparr>"

definition token_response :: http_response where
  "token_response =
     \<lparr>status_code = 200, headers = [], text = ''{...}'',
      json = JsonObject [(''token_type'', JStr ''Bearer''), (''access_token'', JStr ''A1''),
                         (''expires_in'', JInt 300), (''refresh_token'', JStr ''R1''),
                         (''refresh_expires_in'', JInt 1800)]\<rparr>"

definition idp_grants :: "nat \<Rightarrow> http_request \<Rightarrow> exn + http_response" where
  "idp_grants n req = Inr token_response"

text \<open>A cached token with the given access and refresh expiry.\<close>

definition cached :: "datetime \<Rightarrow> datetime \<Rightarrow> Token" where
  "cached e r =
     \<lparr>auth_scheme = JStr ''Bearer'', token_content = JStr ''A0'', expires_at = e,
      refresh_token = JStr ''R0'', refresh_expires_at = r\<rparr>"

definition authenticator_with :: "Token option \<Rightarrow> authenticator" where
  "authenticator_with tok =
     \<lparr>authenticator_class = ClientAuthenticator ''id'' ''secret'', token = tok,
      idp_url = DEFAULT_IDP_URL, client = 0, external_client = False\<rparr>"

text \<open>A broker response with the given status and body.\<close>

definition reply :: "int \<Rightarrow> string \<Rightarrow> http_response" where
  "reply status body = \<lparr>status_code = status, headers = [], text = body, json = NotJson\<rparr>"

text \<open>
  A transport whose identity provider grants every token request and whose broker answers
  with the responses \<open>rs\<close> in turn, then with an empty body.  Every broker request of the
  examples follows one token request, so that request \<open>n\<close> is the broker's request
  \<open>n div 2\<close>.
\<close>

definition scripted :: "http_response list \<Rightarrow> nat \<Rightarrow> http_request \<Rightarrow> exn + http_response" where
  "scripted rs n req =
     (if url req = DEFAULT_IDP_URL then Inr token_response
      else Inr (case drop (n div 2) rs of [] \<Rightarrow> reply 200 [] | r # _ \<Rightarrow> r))"

text \<open>An identity provider that answers every request with the response \<open>r\<close>.\<close>

definition idp_answers :: "http_response \<Rightarrow> nat \<Rightarrow> http_request \<Rightarrow> exn + http_response" where
  "idp_answers r n req = Inr r"

text \<open>The broker of the thing \<^verbatim>\<open>id\<close>, built on the caller's client 0.\<close>

definition example_broker :: Broker where
  "example_broker =
     fst (Broker_init (Thing ''id'' ''secret'' None None) (Some 0) DEFAULT_BROKER_URL
            (world_at 50 idp_grants))"

text \<open>Validators that reject the text \<^verbatim>\<open>bad\<close> and read every other text as a value
  request.\<close>

definition example_validators :: validators where
  "example_validators =
     \<lparr>S3IMessage_model_validate_json =
        (\<lambda>s. if s = ''bad'' then Inl (PyError ValidationError)
             else Inr (GetValueRequestBody ''s3i:a'' ''s3i:1'' [''s3i:b''] ''s3ibs://a'' ''path'')),
      ImageValue_model_validate = (\<lambda>d. Inl (PyError ValidationError))\<rparr>"

section \<open>Properties of the token and of the authenticators\<close>

lemmas clock_defs = expired_def refresh_expired_def now_def

lemmas obtain_defs = obtain_token_def token_and_not_def return_token_def
  BaseAuthenticator_refresh_token_def get_token_from_idp_def token_of_response_def
  expiry_after_def post_def send_request_def timedelta_int_def datetime_add_def datetime_max_def
  dict_get_def

lemmas example_defs = world_at_def cached_def authenticator_with_def idp_grants_def
  token_response_def

text \<open>Both properties hold exactly while the clock is before the expiry.\<close>

lemma expired_reads_clock:
  "fst (expired tok w) = (clock w (ticks w) < expires_at tok)"
  "fst (refresh_expired tok w) = (clock w (ticks w) < refresh_expires_at tok)"
  by (simp_all add: clock_defs)

text \<open>A refresh request never yields a token.\<close>

lemma refresh_token_gives_None:
  "BaseAuthenticator_refresh_token self w = (Inr tok, w') \<Longrightarrow> tok = None"
  by (auto simp: BaseAuthenticator_refresh_token_def split: option.splits prod.splits sum.splits if_splits)

text \<open>
  C1.  The claim: \<^verbatim>\<open>expired\<close> is false strictly before \<^verbatim>\<open>expires_at\<close> and true from
  \<^verbatim>\<open>expires_at\<close> on, and likewise \<^verbatim>\<open>refresh_expired\<close> for \<^verbatim>\<open>refresh_expires_at\<close>.
  The code computes the opposite: for a token whose access expiry is 100 and whose refresh
  expiry is 200, \<^verbatim>\<open>expired\<close> is true at time 50 and false at time 100, and
  \<^verbatim>\<open>refresh_expired\<close> is true at time 150 and false at time 200.
\<close>

theorem expired_is_inverted:
  "fst (expired (cached 100 200) (world_at 50 idp_grants)) = True
   \<and> fst (expired (cached 100 200) (world_at 100 idp_grants)) = False
   \<and> fst (refresh_expired (cached 100 200) (world_at 150 idp_grants)) = True
   \<and> fst (refresh_expired (cached 100 200) (world_at 200 idp_grants)) = False"
  by (simp add: clock_defs world_at_def cached_def)

text \<open>
  C2.  The claim: with a cached token whose access token is expired and whose refresh token
  is not, a refresh response below 400 replaces the cached token and \<^verbatim>\<open>obtain_token\<close>
  returns the new token.  The code does neither.  At time 150, with access expiry 100 and
  refresh expiry 200, it returns the expired cached token and sends no request.  In the
  state in which it does send the refresh request (access expiry 200, refresh expiry 100),
  the granted response yields \<^verbatim>\<open>None\<close>, the cache is emptied and
  \<^verbatim>\<open>AuthenticationException\<close> is raised.
\<close>

theorem refresh_never_returns_a_token:
  "obtain_token (authenticator_with (Some (cached 100 200))) (world_at 150 idp_grants) =
     (Inr (cached 100 200), authenticator_with (Some (cached 100 200)),
      (world_at 150 idp_grants)\<lparr>ticks := 1\<rparr>)
   \<and> obtain_token (authenticator_with (Some (cached 200 100))) (world_at 150 idp_grants) =
     (Inl (S3IError AuthenticationException could_not_obtain None None None None),
      authenticator_with None,
      (world_at 150 idp_grants)
        \<lparr>ticks := 2,
         requests := [(0, \<lparr>http_method = POST, url = DEFAULT_IDP_URL,
                          request_headers = form_headers,
                          content = FormData [(''grant_type'', JStr ''refresh_token''),
                                              (''refresh_token'', JStr ''R0'')]\<rparr>)]\<rparr>)"
  by (simp add: obtain_defs clock_defs example_defs)

text \<open>
  C3.  The claim: when a token is cached and the time is strictly before its access expiry,
  \<^verbatim>\<open>obtain_token\<close> returns the cached token and sends no request.  The code, at time 50
  with access expiry 100 and refresh expiry 200, sends a client-credentials request to the
  identity provider and returns the newly granted token.
\<close>

theorem unexpired_token_is_not_reused:
  "obtain_token (authenticator_with (Some (cached 100 200))) (world_at 50 idp_grants) =
     (Inr \<lparr>auth_scheme = JStr ''Bearer'', token_content = JStr ''A1'', expires_at = 300000050,
           refresh_token = JStr ''R1'', refresh_expires_at = 1800000050\<rparr>,
      authenticator_with (Some \<lparr>auth_scheme = JStr ''Bearer'', token_content = JStr ''A1'',
           expires_at = 300000050, refresh_token = JStr ''R1'', refresh_expires_at = 1800000050\<rparr>),
      (world_at 50 idp_grants)
        \<lparr>ticks := 4,
         requests := [(0, \<lparr>http_method = POST, url = DEFAULT_IDP_URL,
                          request_headers = form_headers,
                          content = FormData [(''grant_type'', JStr ''client_credentials''),
                                              (''client_id'', JStr ''id''),
                                              (''client_secret'', JStr ''secret'')]\<rparr>)]\<rparr>)"
  by (simp add: obtain_defs clock_defs example_defs)

text \<open>
  C5.  The claim: teardown never closes an injected transport, and closes the transport the
  instance created itself.  The code does the opposite, for the authenticator and for the
  broker: client 0, injected, is closed by \<^verbatim>\<open>__del__\<close>; client 1, created by the
  constructor, is left open.  (The broker hands its client to its authenticator, whose
  teardown closes it in both cases.)
\<close>

theorem teardown_closes_the_injected_client:
  "(case BaseAuthenticator_init BaseAuthenticator (Some 0) DEFAULT_IDP_URL (world_at 0 idp_grants) of
      (a, w) \<Rightarrow> client a = 0 \<and> closed w = [] \<and> closed (BaseAuthenticator_del a w) = [0])
   \<and> (case BaseAuthenticator_init BaseAuthenticator None DEFAULT_IDP_URL (world_at 0 idp_grants) of
      (a, w) \<Rightarrow> client a = 1 \<and> clients w = 2 \<and> closed (BaseAuthenticator_del a w) = [])
   \<and> (case Broker_init (Thing ''id'' ''secret'' None None) (Some 0) DEFAULT_BROKER_URL
              (world_at 0 idp_grants) of
      (b, w) \<Rightarrow> broker_client b = 0 \<and> closed w = [] \<and> closed (Broker_del b w) = [0]
        \<and> closed (BaseAuthenticator_del (auth b) w) = [0])
   \<and> (case Broker_init (Thing ''id'' ''secret'' None None) None DEFAULT_BROKER_URL
              (world_at 0 idp_grants) of
      (b, w) \<Rightarrow> broker_client b = 1 \<and> clients w = 2 \<and> closed (Broker_del b w) = []
        \<and> closed (BaseAuthenticator_del (auth b) w) = [1])"
  by (simp add: BaseAuthenticator_init_def BaseAuthenticator_del_def Broker_init_def Broker_del_def
       httpx_Client_def close_def world_at_def Thing_def)

text \<open>
  C6.  When the full-grant request is answered with a status of 400 or more,
  \<^verbatim>\<open>_get_token_from_idp\<close> raises \<^verbatim>\<open>InvalidCredentialsException\<close> if the response text
  equals the invalid-client text, and the generic \<^verbatim>\<open>AuthenticationException\<close> for every
  other text; both carry the status and the text of the response.
\<close>

theorem invalid_credentials_iff:
  assumes "build_auth_payload (authenticator_class self) = Inr payload"
    and "post (client self) (idp_url self) form_headers (FormData payload) w = (Inr response, w1)"
    and "status_code response \<ge> 400"
  shows \<open>get_token_from_idp self w =
    (Inl (if text response =
               ''{"error":"invalid_client","error_description":"Invalid client credentials"}''
          then S3IError InvalidCredentialsException ''Invalid client credentials.''
                 None None (Some (status_code response)) (Some (text response))
          else S3IError AuthenticationException could_not_obtain
                 None None (Some (status_code response)) (Some (text response))), w1)\<close>
  using assms by (simp add: get_token_from_idp_def invalid_client_text_def)

theorem invalid_credentials_iff_witness:
  \<open>fst (get_token_from_idp (authenticator_with None)
          (world_at 50 (idp_answers (reply 401 invalid_client_text)))) =
     Inl (S3IError InvalidCredentialsException ''Invalid client credentials.'' None None
            (Some 401) (Some invalid_client_text))
   \<and> fst (get_token_from_idp (authenticator_with None)
          (world_at 50 (idp_answers (reply 401 ''{"error":"invalid_grant"}'')))) =
     Inl (S3IError AuthenticationException could_not_obtain None None
            (Some 401) (Some ''{"error":"invalid_grant"}''))\<close>
proof -
  let ?payload = "[(''grant_type'', JStr ''client_credentials''), (''client_id'', JStr ''id''),
                   (''client_secret'', JStr ''secret'')]"
  have h1: "build_auth_payload (authenticator_class (authenticator_with None)) = Inr ?payload"
    by (simp add: authenticator_with_def)
  have run: "fst (get_token_from_idp (authenticator_with None)
                   (world_at 50 (idp_answers (reply 401 body)))) =
      Inl (if body = invalid_client_text
           then S3IError InvalidCredentialsException ''Invalid client credentials.''
                  None None (Some 401) (Some body)
           else S3IError AuthenticationException could_not_obtain
                  None None (Some 401) (Some body))" for body
  proof -
    let ?w = "world_at 50 (idp_answers (reply 401 body))"
    let ?w1 = "?w\<lparr>requests := [(0, \<lparr>http_method = POST, url = DEFAULT_IDP_URL,
                                    request_headers = form_headers,
                                    content = FormData ?payload\<rparr>)]\<rparr>"
    have h2: "post (client (authenticator_with None)) (idp_url (authenticator_with None))
                form_headers (FormData ?payload) ?w = (Inr (reply 401 body), ?w1)"
      by (simp add: authenticator_with_def post_def send_request_def world_at_def idp_answers_def)
    have h3: "status_code (reply 401 body) \<ge> 400"
      by (simp add: reply_def)
    show ?thesis
      using invalid_credentials_iff [OF h1 h2 h3] by (simp add: reply_def invalid_client_text_def)
  qed
  show ?thesis
    by (simp add: run) (simp add: invalid_client_text_def)
qed

text \<open>
  C9.  The password payload holds the grant type, the client id, the client secret, the
  username and the password when username and password are both present, that is given
  and not empty, which is what \<^verbatim>\<open>if self.__username and self.__password\<close> tests; it is
  empty when either of them is absent.
\<close>

theorem password_payload:
  "build_auth_payload (PasswordAuthenticator ident secret (Some u) (Some p)) =
     Inr (if u \<noteq> [] \<and> p \<noteq> []
          then [(''grant_type'', JStr ''password''), (''client_id'', JStr ident),
                (''client_secret'', JStr secret), (''username'', JStr u), (''password'', JStr p)]
          else [])
   \<and> build_auth_payload (PasswordAuthenticator ident secret None password) = Inr []
   \<and> build_auth_payload (PasswordAuthenticator ident secret username None) = Inr []"
  by (simp add: dict_or_def)

theorem password_payload_witness:
  "build_auth_payload (PasswordAuthenticator ''id'' ''secret'' (Some ''user'') (Some ''pw'')) =
     Inr [(''grant_type'', JStr ''password''), (''client_id'', JStr ''id''),
          (''client_secret'', JStr ''secret''), (''username'', JStr ''user''),
          (''password'', JStr ''pw'')]
   \<and> build_auth_payload (PasswordAuthenticator ''id'' ''secret'' None (Some ''pw'')) = Inr []
   \<and> build_auth_payload (PasswordAuthenticator ''id'' ''secret'' (Some ''user'') None) = Inr []"
  using password_payload [of "''id''" "''secret''" "''user''" "''pw''" "Some ''pw''" "Some ''user''"]
  by simp

section \<open>Properties of the broker\<close>

lemmas broker_example_defs = example_broker_def Broker_init_def BaseAuthenticator_init_def
  Thing_def DEFAULT_BROKER_URL_def DEFAULT_IDP_URL_def world_at_def scripted_def reply_def
  token_response_def form_headers_def

lemmas broker_run_defs = receive_def send_def get_def header_def full_token_def dict_or_def
  obtain_defs clock_defs

text \<open>
  C7.  Once the token is obtained and the broker has answered the GET request,
  \<^verbatim>\<open>receive\<close> raises \<^verbatim>\<open>S3IException\<close> (the broker error) when the status is not 200,
  returns \<^verbatim>\<open>None\<close> when the status is 200 and the body is the empty string, and returns
  the pair of status and body unchanged otherwise.
\<close>

theorem receive_result:
  assumes "obtain_token (auth self) w = (Inr tok, a, w1)"
    and "get (broker_client self)
           (broker_url self @ ''/'' @ (if event then event_queue self else message_queue self)
              @ (if all then ''/all'' else []))
           (header tok) w1 = (Inr response, w2)"
  shows "receive self event all w =
           (if status_code response \<noteq> 200 then
              Inl (S3IError S3IException
                     (''Failed to get message from ''
                        @ (if event then event_queue self else message_queue self) @ ''.'')
                     (Some (headers response)) None
                     (Some (status_code response)) (Some (text response)))
            else if text response = [] then Inr None
            else Inr (Some (status_code response, text response)),
            self\<lparr>auth := a\<rparr>, w2)"
  using assms by (simp add: receive_def Let_def)

theorem receive_result_witness:
  "fst (receive example_broker False False (world_at 50 (scripted [reply 200 ''m1''])))
     = Inr (Some (200, ''m1''))
   \<and> fst (receive example_broker False False (world_at 50 (scripted [])))
     = Inr None
   \<and> fst (receive example_broker False False (world_at 50 (scripted [reply 404 ''gone''])))
     = Inl (S3IError S3IException ''Failed to get message from s3ibs://id.''
              (Some []) None (Some 404) (Some ''gone''))"
proof -
  have run: "fst (receive example_broker False False (world_at 50 (scripted rs))) =
      (let response = (case rs of [] \<Rightarrow> reply 200 [] | r # _ \<Rightarrow> r) in
       if status_code response \<noteq> 200 then
         Inl (S3IError S3IException ''Failed to get message from s3ibs://id.''
                (Some (headers response)) None (Some (status_code response))
                (Some (text response)))
       else if text response = [] then Inr None
       else Inr (Some (status_code response, text response)))" for rs
  proof -
    let ?w = "world_at 50 (scripted rs)"
    obtain tok a w1 where h1: "obtain_token (auth example_broker) ?w = (Inr tok, a, w1)"
      and n1: "length (requests w1) = 1" and t1: "transport w1 = scripted rs"
      by (simp add: broker_example_defs broker_run_defs)
    obtain w2 where h2: "get (broker_client example_broker)
           (broker_url example_broker @ ''/''
              @ (if False then event_queue example_broker else message_queue example_broker)
              @ (if False then ''/all'' else []))
           (header tok) w1
         = (Inr (case rs of [] \<Rightarrow> reply 200 [] | r # _ \<Rightarrow> r), w2)"
      using n1 t1
      by (simp add: get_def send_request_def scripted_def example_broker_def Broker_init_def
            BaseAuthenticator_init_def Thing_def DEFAULT_BROKER_URL_def DEFAULT_IDP_URL_def)
    show ?thesis
      using receive_result [OF h1 h2]
      by (simp add: Let_def example_broker_def Broker_init_def BaseAuthenticator_init_def Thing_def)
  qed
  show ?thesis
    by (simp add: run reply_def)
qed

text \<open>
  C8.  Once the token is obtained and the broker has answered the POST request,
  \<^verbatim>\<open>send\<close> raises \<^verbatim>\<open>S3IException\<close> (the broker error) when the status is not 201; the
  exception carries the headers of the response, the message that was to be sent, the
  status and the text of the response.  When the status is 201, \<^verbatim>\<open>send\<close> returns the
  pair of status and text.
\<close>

theorem send_result:
  assumes "obtain_token (auth self) w = (Inr tok, a, w1)"
    and "post (broker_client self) (broker_url self @ ''/'' @ endpoint)
           (dict_or [(''Content-Type'', ''application/json'')] (header tok))
           (JsonBody message) w1 = (Inr response, w2)"
  shows "send self endpoint message w =
           (if status_code response \<noteq> 201 then
              Inl (S3IError S3IException (''Failed to send message to '' @ endpoint @ ''.'')
                     (Some (headers response)) (Some message)
                     (Some (status_code response)) (Some (text response)))
            else Inr (status_code response, text response),
            self\<lparr>auth := a\<rparr>, w2)"
  using assms by (simp add: send_def)

theorem send_result_witness:
  "fst (send example_broker ''s3ibs://other'' [(''k'', JInt 1)]
          (world_at 50 (scripted [reply 500 ''boom''])))
     = Inl (S3IError S3IException ''Failed to send message to s3ibs://other.''
              (Some []) (Some [(''k'', JInt 1)]) (Some 500) (Some ''boom''))
   \<and> fst (send example_broker ''s3ibs://other'' [(''k'', JInt 1)]
          (world_at 50 (scripted [reply 201 ''ok''])))
     = Inr (201, ''ok'')"
proof -
  have run: "fst (send example_broker ''s3ibs://other'' [(''k'', JInt 1)]
                    (world_at 50 (scripted [r]))) =
      (if status_code r \<noteq> 201 then
         Inl (S3IError S3IException ''Failed to send message to s3ibs://other.''
                (Some (headers r)) (Some [(''k'', JInt 1)]) (Some (status_code r))
                (Some (text r)))
       else Inr (status_code r, text r))" for r
  proof -
    let ?w = "world_at 50 (scripted [r])"
    obtain tok a w1 where h1: "obtain_token (auth example_broker) ?w = (Inr tok, a, w1)"
      and n1: "length (requests w1) = 1" and t1: "transport w1 = scripted [r]"
      by (simp add: broker_example_defs broker_run_defs)
    obtain w2 where h2: "post (broker_client example_broker)
           (broker_url example_broker @ ''/'' @ ''s3ibs://other'')
           (dict_or [(''Content-Type'', ''application/json'')] (header tok))
           (JsonBody [(''k'', JInt 1)]) w1
         = (Inr r, w2)"
      using n1 t1
      by (simp add: post_def send_request_def scripted_def example_broker_def Broker_init_def
            BaseAuthenticator_init_def Thing_def DEFAULT_BROKER_URL_def DEFAULT_IDP_URL_def)
    show ?thesis
      using send_result [OF h1 h2] by simp
  qed
  show ?thesis
    by (simp add: run reply_def)
qed

section \<open>Properties of the drain loop\<close>

text \<open>While receive hands out messages, the loop goes on with the failures of their
  handling appended to the exceptions collected before.\<close>

lemma fetch_loop_receives:
  "receives broker w ms = Some (broker1, w1) \<Longrightarrow>
   fetch_loop V excs broker w = fetch_loop V (excs @ failures V ms) broker1 w1"
proof (induction ms arbitrary: broker w excs)
  case Nil
  then show ?case by simp
next
  case (Cons m ms)
  from Cons.prems obtain broker' w' where
    r: "receive broker False False w = (Inr (Some m), broker', w')" and
    rest: "receives broker' w' ms = Some (broker1, w1)"
    by (auto split: prod.splits sum.splits option.splits if_splits)
  have step: "fetch_loop V excs broker w =
      (case handle_single_message V (snd m) of
         Inl e \<Rightarrow> fetch_loop V (excs @ [e]) broker' w'
       | Inr _ \<Rightarrow> fetch_loop V excs broker' w')"
    by (subst fetch_loop.simps) (simp add: r split: prod.splits)
  show ?case
  proof (cases "handle_single_message V (snd m)")
    case (Inl e)
    with step Cons.IH [OF rest, of "excs @ [e]"] show ?thesis by simp
  next
    case (Inr u)
    with step Cons.IH [OF rest, of excs] show ?thesis by simp
  qed
qed

text \<open>Obtaining a token sends POST requests only; a receive that returns has sent one GET
  request.\<close>

lemma now_polls: "polls (snd (now w)) = polls w"
  by (simp add: now_def polls_def)

lemma post_polls: "polls (snd (post c u hs body w)) = polls w"
  by (simp add: post_def send_request_def polls_def)

lemma get_polls: "polls (snd (get c u hs w)) = Suc (polls w)"
  by (simp add: get_def send_request_def polls_def)

lemma expiry_after_polls: "polls (snd (expiry_after d k w)) = polls w"
  by (simp add: expiry_after_def now_def polls_def split: option.splits sum.splits)

lemma token_of_response_polls: "polls (snd (token_of_response r w)) = polls w"
proof (cases "json r")
  case (JsonObject d)
  show ?thesis
  proof (cases "expiry_after d ''expires_in'' w")
    case (Pair x w1)
    with expiry_after_polls [of d "''expires_in''" w] have p1: "polls w1 = polls w" by simp
    show ?thesis
    proof (cases "expiry_after d ''refresh_expires_in'' w1")
      case (Pair y w2)
      with expiry_after_polls [of d "''refresh_expires_in''" w1] p1
      have "polls w2 = polls w" by simp
      with JsonObject \<open>expiry_after d ''expires_in'' w = (x, w1)\<close> Pair p1 show ?thesis
        by (simp add: token_of_response_def split: sum.splits)
    qed
  qed
qed (simp_all add: token_of_response_def)

lemma get_token_from_idp_polls: "polls (snd (get_token_from_idp a w)) = polls w"
proof (cases "build_auth_payload (authenticator_class a)")
  case (Inl e)
  then show ?thesis by (simp add: get_token_from_idp_def)
next
  case (Inr payload)
  show ?thesis
  proof (cases "post (client a) (idp_url a) form_headers (FormData payload) w")
    case (Pair x w1)
    with post_polls [of "client a" "idp_url a" form_headers "FormData payload" w]
    have "polls w1 = polls w" by simp
    with Inr Pair token_of_response_polls show ?thesis
      by (simp add: get_token_from_idp_def split: sum.splits)
  qed
qed

lemma refresh_token_polls: "polls (snd (BaseAuthenticator_refresh_token a w)) = polls w"
proof (cases "token a")
  case None
  then show ?thesis by (simp add: BaseAuthenticator_refresh_token_def)
next
  case (Some tok)
  show ?thesis
  proof (cases "post (client a) (idp_url a) form_headers
                  (FormData [(''grant_type'', JStr ''refresh_token''),
                             (''refresh_token'', refresh_token tok)]) w")
    case (Pair x w1)
    with post_polls [of "client a" "idp_url a" form_headers
        "FormData [(''grant_type'', JStr ''refresh_token''),
                   (''refresh_token'', refresh_token tok)]" w]
    have "polls w1 = polls w" by simp
    with Some Pair show ?thesis
      by (simp add: BaseAuthenticator_refresh_token_def split: sum.splits)
  qed
qed

lemma token_and_not_polls:
  "polls (snd (token_and_not c expired w)) = polls w"
  "polls (snd (token_and_not c refresh_expired w)) = polls w"
  by (simp_all add: token_and_not_def expired_def refresh_expired_def now_def polls_def
        split: option.splits)

lemma return_token_polls: "polls (snd (snd (return_token a w))) = polls w"
  by (simp add: return_token_def split: option.splits)

lemma obtain_token_polls': "polls (snd (snd (obtain_token a w))) = polls w"
proof (cases "token_and_not (token a) expired w")
  case (Pair v w1)
  with token_and_not_polls(1) [of "token a" w] have p1: "polls w1 = polls w" by simp
  show ?thesis
  proof (cases v)
    case True
    with Pair p1 show ?thesis by (simp add: obtain_token_def return_token_polls)
  next
    case False
    show ?thesis
    proof (cases "token_and_not (token a) refresh_expired w1")
      case (Pair r w2)
      with token_and_not_polls(2) [of "token a" w1] p1 have p2: "polls w2 = polls w" by simp
      show ?thesis
      proof (cases r)
        case True
        obtain x w3 where x: "BaseAuthenticator_refresh_token a w2 = (x, w3)" by force
        with refresh_token_polls [of a w2] p2 have "polls w3 = polls w" by simp
        with \<open>token_and_not (token a) expired w = (v, w1)\<close> \<open>\<not> v\<close> Pair True x show ?thesis
          by (simp add: obtain_token_def return_token_polls split: sum.splits)
      next
        case False
        obtain x w3 where x: "get_token_from_idp a w2 = (x, w3)" by force
        with get_token_from_idp_polls [of a w2] p2 have "polls w3 = polls w" by simp
        with \<open>token_and_not (token a) expired w = (v, w1)\<close> \<open>\<not> v\<close> Pair False x show ?thesis
          by (simp add: obtain_token_def return_token_polls split: sum.splits)
      qed
    qed
  qed
qed

lemma obtain_token_polls: "obtain_token a w = (r, a', w') \<Longrightarrow> polls w' = polls w"
  using obtain_token_polls' [of a w] by simp

lemma receive_polls:
  "receive broker event all w = (Inr r, broker', w') \<Longrightarrow> polls w' = Suc (polls w)"
proof -
  assume rcv: "receive broker event all w = (Inr r, broker', w')"
  obtain x a w1 where o: "obtain_token (auth broker) w = (x, a, w1)"
    by (metis prod_cases3)
  from obtain_token_polls [OF o] have p1: "polls w1 = polls w" .
  show ?thesis
  proof (cases x)
    case (Inl e)
    with rcv o show ?thesis by (simp add: receive_def Let_def)
  next
    case (Inr tok)
    let ?u = "broker_url broker @ ''/'' @ (if event then event_queue broker else message_queue broker)
              @ (if all then ''/all'' else [])"
    obtain y w2 where g: "get (broker_client broker) ?u (header tok) w1 = (y, w2)" by force
    with get_polls [of "broker_client broker" ?u "header tok" w1] p1
    have "polls w2 = Suc (polls w)" by simp
    with rcv o Inr g show ?thesis
      by (cases y) (auto simp add: receive_def Let_def split: if_splits)
  qed
qed

lemma receives_polls:
  "receives broker w ms = Some (broker1, w1) \<Longrightarrow> polls w1 = polls w + length ms"
proof (induction ms arbitrary: broker w)
  case Nil
  then show ?case by simp
next
  case (Cons m ms)
  from Cons.prems obtain broker' w' where
    r: "receive broker False False w = (Inr (Some m), broker', w')" and
    rest: "receives broker' w' ms = Some (broker1, w1)"
    by (auto split: prod.splits sum.splits option.splits if_splits)
  from receive_polls [OF r] Cons.IH [OF rest] show ?case by simp
qed

text \<open>The authenticator and the broker of the examples at time 50: every call is granted
  a new token, and the broker's answer is the next one of the script.\<close>

lemma example_obtain:
  assumes "clock w = (\<lambda>_. 50)" and "transport w = scripted rs"
    and "length (requests w) = 2 * k" and "tok = None \<or> tok = Some granted"
    and "granted = \<lparr>auth_scheme = JStr ''Bearer'', token_content = JStr ''A1'',
           expires_at = 300000050, refresh_token = JStr ''R1'', refresh_expires_at = 1800000050\<rparr>"
  shows "\<exists>w'. obtain_token ((auth example_broker)\<lparr>token := tok\<rparr>) w =
           (Inr granted, (auth example_broker)\<lparr>token := Some granted\<rparr>, w')
         \<and> clock w' = (\<lambda>_. 50) \<and> transport w' = scripted rs
         \<and> length (requests w') = Suc (2 * k)"
  using assms(4)
proof
  assume "tok = None"
  then show ?thesis
    using assms(1-3,5)
    by (simp add: example_broker_def Broker_init_def BaseAuthenticator_init_def
          Thing_def DEFAULT_IDP_URL_def scripted_def token_response_def obtain_defs clock_defs)
next
  assume "tok = Some granted"
  then show ?thesis
    using assms(1-3,5)
    by (simp add: example_broker_def Broker_init_def BaseAuthenticator_init_def
          Thing_def DEFAULT_IDP_URL_def scripted_def token_response_def obtain_defs clock_defs)
qed

lemma example_receive:
  assumes "clock w = (\<lambda>_. 50)" and "transport w = scripted rs"
    and "length (requests w) = 2 * k" and "tok = None \<or> tok = Some granted"
    and "granted = \<lparr>auth_scheme = JStr ''Bearer'', token_content = JStr ''A1'',
           expires_at = 300000050, refresh_token = JStr ''R1'', refresh_expires_at = 1800000050\<rparr>"
    and "response = (case drop k rs of [] \<Rightarrow> reply 200 [] | r # _ \<Rightarrow> r)"
  shows "\<exists>w'. receive (example_broker\<lparr>auth := (auth example_broker)\<lparr>token := tok\<rparr>\<rparr>) False False w =
           (if status_code response \<noteq> 200 then
              Inl (S3IError S3IException ''Failed to get message from s3ibs://id.''
                     (Some (headers response)) None
                     (Some (status_code response)) (Some (text response)))
            else if text response = [] then Inr None
            else Inr (Some (status_code response, text response)),
            example_broker\<lparr>auth := (auth example_broker)\<lparr>token := Some granted\<rparr>\<rparr>, w')
         \<and> clock w' = (\<lambda>_. 50) \<and> transport w' = scripted rs
         \<and> length (requests w') = 2 * Suc k"
proof -
  from example_obtain [OF assms(1-5)] obtain w1 where
    o: "obtain_token ((auth example_broker)\<lparr>token := tok\<rparr>) w =
          (Inr granted, (auth example_broker)\<lparr>token := Some granted\<rparr>, w1)"
    and w1: "clock w1 = (\<lambda>_. 50)" "transport w1 = scripted rs"
      "length (requests w1) = Suc (2 * k)"
    by blast
  have u: "url req \<noteq> DEFAULT_IDP_URL \<Longrightarrow> scripted rs (Suc (2 * k)) req = Inr response" for req
    by (simp add: scripted_def assms(6))
  have q: "message_queue example_broker = ''s3ibs://id''"
      "broker_url example_broker = ''https://broker.s3i.vswf.dev''"
      "broker_client example_broker = 0"
    by (simp_all add: example_broker_def Broker_init_def BaseAuthenticator_init_def Thing_def
          DEFAULT_BROKER_URL_def)
  show ?thesis
    using o w1 by (simp add: receive_def Let_def get_def send_request_def q u DEFAULT_IDP_URL_def)
qed

text \<open>
  C4.  When the first receive calls hand out the messages \<open>ms\<close> and the next one returns
  \<^verbatim>\<open>None\<close>, the drain loop ends after these \<open>length ms + 1\<close> polls.  It has caught every
  exception raised while handling a message, and only now raises one \<^verbatim>\<open>ExceptionGroup\<close>
  whose \<^verbatim>\<open>exceptions\<close> are all of them, in the order of the messages; when no handling
  raised, it returns normally.  For three messages of which the second is rejected by the
  parser, the queue is polled a fourth time and the group holds exactly one exception.
\<close>

theorem drain_collects_failures:
  assumes "receives broker w ms = Some (broker1, w1)"
    and "receive broker1 False False w1 = (Inr None, broker2, w2)"
  shows "fetch_s3i_messages V broker w =
           Some (if failures V ms \<noteq> []
                 then Inl (ExceptionGroup ''Exceptions occurred while handling messages.''
                            (failures V ms))
                 else Inr (), broker2, w2)
         \<and> polls w2 = polls w + length ms + 1"
proof -
  have "fetch_loop V [] broker w = fetch_loop V ([] @ failures V ms) broker1 w1"
    using assms(1) by (rule fetch_loop_receives)
  also have "\<dots> = Some (if failures V ms \<noteq> []
                 then Inl (ExceptionGroup ''Exceptions occurred while handling messages.''
                            (failures V ms))
                 else Inr (), broker2, w2)"
    by (subst fetch_loop.simps) (simp add: assms(2))
  finally have "fetch_s3i_messages V broker w =
           Some (if failures V ms \<noteq> []
                 then Inl (ExceptionGroup ''Exceptions occurred while handling messages.''
                            (failures V ms))
                 else Inr (), broker2, w2)"
    by (simp add: fetch_s3i_messages_def)
  moreover have "polls w2 = polls w + length ms + 1"
    using receives_polls [OF assms(1)] receive_polls [OF assms(2)] by simp
  ultimately show ?thesis by simp
qed

lemma example_failures:
  "failures example_validators [(200, ''m1''), (200, ''bad''), (200, ''m3'')]
     = [PyError ValidationError]"
  "failures example_validators [(200, ''bad'')] = [PyError ValidationError]"
  by (simp_all add: handle_single_message_def example_validators_def is_image_message_def)

lemma example_broker_token:
  "example_broker = example_broker\<lparr>auth := (auth example_broker)\<lparr>token := None\<rparr>\<rparr>"
  by (simp add: example_broker_def Broker_init_def BaseAuthenticator_init_def)

lemma world_at_fields:
  "clock (world_at t tr) = (\<lambda>_. t)" "transport (world_at t tr) = tr"
  "length (requests (world_at t tr)) = 2 * 0" "polls (world_at t tr) = 0"
  by (simp_all add: world_at_def polls_def)

theorem drain_collects_failures_witness:
  "map_option fst
     (fetch_s3i_messages example_validators example_broker
        (world_at 50 (scripted [reply 200 ''m1'', reply 200 ''bad'', reply 200 ''m3''])))
     = Some (Inl (ExceptionGroup ''Exceptions occurred while handling messages.''
                    [PyError ValidationError]))
   \<and> map_option (\<lambda>r. polls (snd (snd r)))
     (fetch_s3i_messages example_validators example_broker
        (world_at 50 (scripted [reply 200 ''m1'', reply 200 ''bad'', reply 200 ''m3''])))
     = Some 4"
proof -
  let ?rs = "[reply 200 ''m1'', reply 200 ''bad'', reply 200 ''m3'']"
  let ?w = "world_at 50 (scripted ?rs)"
  let ?granted = "\<lparr>auth_scheme = JStr ''Bearer'', token_content = JStr ''A1'',
           expires_at = 300000050, refresh_token = JStr ''R1'', refresh_expires_at = 1800000050\<rparr>"
  let ?b = "example_broker\<lparr>auth := (auth example_broker)\<lparr>token := Some ?granted\<rparr>\<rparr>"
  from example_receive [of ?w ?rs 0 None ?granted, OF world_at_fields(1,2,3)]
  obtain w1 where r1: "receive example_broker False False ?w = (Inr (Some (200, ''m1'')), ?b, w1)"
    and w1: "clock w1 = (\<lambda>_. 50)" "transport w1 = scripted ?rs" "length (requests w1) = 2 * 1"
    using example_broker_token by (auto simp: reply_def)
  from example_receive [of w1 ?rs 1 "Some ?granted" ?granted, OF w1]
  obtain w2 where r2: "receive ?b False False w1 = (Inr (Some (200, ''bad'')), ?b, w2)"
    and w2: "clock w2 = (\<lambda>_. 50)" "transport w2 = scripted ?rs" "length (requests w2) = 2 * 2"
    by (auto simp: reply_def)
  from example_receive [of w2 ?rs 2 "Some ?granted" ?granted, OF w2]
  obtain w3 where r3: "receive ?b False False w2 = (Inr (Some (200, ''m3'')), ?b, w3)"
    and w3: "clock w3 = (\<lambda>_. 50)" "transport w3 = scripted ?rs" "length (requests w3) = 2 * 3"
    by (auto simp: reply_def)
  from example_receive [of w3 ?rs 3 "Some ?granted" ?granted, OF w3]
  obtain w4 where h2: "receive ?b False False w3 = (Inr None, ?b, w4)"
    by (auto simp: reply_def)
  have h1: "receives example_broker ?w [(200, ''m1''), (200, ''bad''), (200, ''m3'')] = Some (?b, w3)"
    by (simp add: r1 r2 r3)
  show ?thesis
    using drain_collects_failures [OF h1 h2, of example_validators]
    by (simp add: example_failures world_at_fields del: failures.simps)
qed

text \<open>
  C10.  When a receive call raises after the messages \<open>ms\<close> were handed out, the drain loop
  ends with exactly that exception: whatever the handling of \<open>ms\<close> raised before is
  dropped, and no \<^verbatim>\<open>ExceptionGroup\<close> is built.
\<close>

theorem receive_error_discards_failures:
  assumes "receives broker w ms = Some (broker1, w1)"
    and "receive broker1 False False w1 = (Inl e, broker2, w2)"
  shows "fetch_s3i_messages V broker w = Some (Inl e, broker2, w2)"
proof -
  have "fetch_loop V [] broker w = fetch_loop V ([] @ failures V ms) broker1 w1"
    using assms(1) by (rule fetch_loop_receives)
  also have "\<dots> = Some (Inl e, broker2, w2)"
    by (subst fetch_loop.simps) (simp add: assms(2))
  finally show ?thesis by (simp add: fetch_s3i_messages_def)
qed

theorem receive_error_discards_failures_witness:
  "failures example_validators [(200, ''bad'')] = [PyError ValidationError]
   \<and> map_option fst
     (fetch_s3i_messages example_validators example_broker
        (world_at 50 (scripted [reply 200 ''bad'', reply 500 ''down''])))
     = Some (Inl (S3IError S3IException ''Failed to get message from s3ibs://id.''
                    (Some []) None (Some 500) (Some ''down'')))"
proof -
  let ?rs = "[reply 200 ''bad'', reply 500 ''down'']"
  let ?w = "world_at 50 (scripted ?rs)"
  let ?granted = "\<lparr>auth_scheme = JStr ''Bearer'', token_content = JStr ''A1'',
           expires_at = 300000050, refresh_token = JStr ''R1'', refresh_expires_at = 1800000050\<rparr>"
  let ?b = "example_broker\<lparr>auth := (auth example_broker)\<lparr>token := Some ?granted\<rparr>\<rparr>"
  let ?e = "S3IError S3IException ''Failed to get message from s3ibs://id.''
              (Some []) None (Some 500) (Some ''down'')"
  from example_receive [of ?w ?rs 0 None ?granted, OF world_at_fields(1,2,3)]
  obtain w1 where r1: "receive example_broker False False ?w = (Inr (Some (200, ''bad'')), ?b, w1)"
    and w1: "clock w1 = (\<lambda>_. 50)" "transport w1 = scripted ?rs" "length (requests w1) = 2 * 1"
    using example_broker_token by (auto simp: reply_def)
  from example_receive [of w1 ?rs 1 "Some ?granted" ?granted, OF w1]
  obtain w2 where h2: "receive ?b False False w1 = (Inl ?e, ?b, w2)"
    by (auto simp: reply_def)
  have h1: "receives example_broker ?w [(200, ''bad'')] = Some (?b, w1)"
    by (simp add: r1)
  show ?thesis
    using receive_error_discards_failures [OF h1 h2, of example_validators]
    by (simp add: example_failures del: failures.simps)
qed

end
